theory Spec2Isabelle
  imports Complex_Main "HOL-Library.Word" "HOL-Library.Signed_Division"
begin

section \<open>Double-precision values\<close>

text \<open>
  Both calculators compute with \<^verbatim>\<open>double\<close>. A value is a NaN, an infinity with its sign, or a
  finite number \<open>(-1)\<^sup>s * m * 2\<^sup>e\<close> given by its sign (\<open>True\<close> is negative), its significand and its
  exponent. The two zeros are \<open>Finite False 0 (-1074)\<close> and \<open>Finite True 0 (-1074)\<close>.
  Arithmetic is that of IEEE 754 binary64 in the default rounding mode (to nearest, ties to
  even), overflow giving an infinity and the smallest exponent being \<open>-1074\<close>.
\<close>

datatype double = NaN | Infty bool | Finite bool nat int

definition valid :: "double \<Rightarrow> bool" where
  "valid x =
     (case x of
        Finite s m e \<Rightarrow> m < 2 ^ 53 \<and> - 1074 \<le> e \<and> e \<le> 971 \<and> (2 ^ 52 \<le> m \<or> e = - 1074)
      | _ \<Rightarrow> True)"

text \<open>The number of binary digits of a natural number.\<close>

fun nbits :: "nat \<Rightarrow> nat" where
  "nbits n = (if n = 0 then 0 else Suc (nbits (n div 2)))"

declare nbits.simps [simp del]

text \<open>\<open>round_even N D\<close> is the integer nearest to \<open>N / D\<close>, the even one of two on a tie.\<close>

definition round_even :: "nat \<Rightarrow> nat \<Rightarrow> nat" where
  "round_even N D =
     (if 2 * (N mod D) < D then N div D
      else if D < 2 * (N mod D) then N div D + 1
      else if even (N div D) then N div D else N div D + 1)"

text \<open>A rounded significand of 54 digits moves to the next exponent; past 971 is overflow.\<close>

definition pack :: "bool \<Rightarrow> nat \<Rightarrow> int \<Rightarrow> double" where
  "pack s q e =
     (if q = 2 ^ 53 then (if 970 < e then Infty s else Finite s (2 ^ 52) (e + 1))
      else if 971 < e then Infty s else Finite s q e)"

text \<open>
  The exponent at which \<open>n / d\<close> has a significand of 53 digits, or \<open>-1074\<close> when that is
  smaller (a subnormal result). The guess \<open>e0\<close> is one too small when the quotient has 54
  digits there.
\<close>

definition adjust :: "nat \<Rightarrow> nat \<Rightarrow> int \<Rightarrow> int" where
  "adjust n d e0 =
     max (if (n * 2 ^ nat (- e0)) div (d * 2 ^ nat e0) < 2 ^ 53 then e0 else e0 + 1) (- 1074)"

definition rnd_at :: "bool \<Rightarrow> nat \<Rightarrow> nat \<Rightarrow> int \<Rightarrow> double" where
  "rnd_at s n d e = pack s (round_even (n * 2 ^ nat (- e)) (d * 2 ^ nat e)) e"

text \<open>\<open>rnd s n d\<close> is the double nearest to the rational \<open>(-1)\<^sup>s * n / d\<close>, for \<open>d > 0\<close>.\<close>

definition rnd :: "bool \<Rightarrow> nat \<Rightarrow> nat \<Rightarrow> double" where
  "rnd s n d =
     (if n = 0 then Finite s 0 (- 1074)
      else rnd_at s n d (adjust n d (int (nbits n) - int (nbits d) - 53)))"

text \<open>\<open>rnd2 s n x\<close> rounds \<open>(-1)\<^sup>s * n * 2\<^sup>x\<close>.\<close>

definition rnd2 :: "bool \<Rightarrow> nat \<Rightarrow> int \<Rightarrow> double" where
  "rnd2 s n x = rnd s (n * 2 ^ nat x) (2 ^ nat (- x))"

definition sval :: "bool \<Rightarrow> nat \<Rightarrow> int" where
  "sval s m = (if s then - int m else int m)"

text \<open>The integer \<open>z * 2\<^sup>x\<close> as a double; an exact zero takes the sign \<open>sz\<close>.\<close>

definition of_scaled :: "int \<Rightarrow> int \<Rightarrow> bool \<Rightarrow> double" where
  "of_scaled z x sz = (if z = 0 then Finite sz 0 (- 1074) else rnd2 (z < 0) (nat \<bar>z\<bar>) x)"

text \<open>The conversion of a C \<^verbatim>\<open>int\<close> to \<^verbatim>\<open>double\<close> (exact).\<close>

definition double_of_int :: "int \<Rightarrow> double" where
  "double_of_int i = of_scaled i 0 False"

definition d_zero :: double where
  "d_zero = Finite False 0 (- 1074)"

definition is_nan :: "double \<Rightarrow> bool" where
  "is_nan x = (case x of NaN \<Rightarrow> True | _ \<Rightarrow> False)"

fun fneg :: "double \<Rightarrow> double" where
  "fneg NaN = NaN"
| "fneg (Infty s) = Infty (\<not> s)"
| "fneg (Finite s m e) = Finite (\<not> s) m e"

text \<open>C's \<^verbatim>\<open>a + b\<close>. An exact zero sum is \<open>-0\<close> only when both operands are negative.\<close>

fun fadd :: "double \<Rightarrow> double \<Rightarrow> double" where
  "fadd NaN y = NaN"
| "fadd x NaN = NaN"
| "fadd (Infty s) (Infty t) = (if s = t then Infty s else NaN)"
| "fadd (Infty s) (Finite t k f) = Infty s"
| "fadd (Finite s m e) (Infty t) = Infty t"
| "fadd (Finite s m e) (Finite t k f) =
     of_scaled (sval s m * 2 ^ nat (e - min e f) + sval t k * 2 ^ nat (f - min e f))
       (min e f) (s \<and> t)"

text \<open>C's \<^verbatim>\<open>a - b\<close>.\<close>

definition fsub :: "double \<Rightarrow> double \<Rightarrow> double" where
  "fsub x y = fadd x (fneg y)"

text \<open>C's \<^verbatim>\<open>a * b\<close>.\<close>

fun fmul :: "double \<Rightarrow> double \<Rightarrow> double" where
  "fmul NaN y = NaN"
| "fmul x NaN = NaN"
| "fmul (Infty s) (Infty t) = Infty (s \<noteq> t)"
| "fmul (Infty s) (Finite t k f) = (if k = 0 then NaN else Infty (s \<noteq> t))"
| "fmul (Finite s m e) (Infty t) = (if m = 0 then NaN else Infty (s \<noteq> t))"
| "fmul (Finite s m e) (Finite t k f) = rnd2 (s \<noteq> t) (m * k) (e + f)"

text \<open>C's \<^verbatim>\<open>a / b\<close>. Dividing by a zero gives an infinity, or NaN for \<open>0 / 0\<close>.\<close>

fun fdiv :: "double \<Rightarrow> double \<Rightarrow> double" where
  "fdiv NaN y = NaN"
| "fdiv x NaN = NaN"
| "fdiv (Infty s) (Infty t) = NaN"
| "fdiv (Infty s) (Finite t k f) = Infty (s \<noteq> t)"
| "fdiv (Finite s m e) (Infty t) = Finite (s \<noteq> t) 0 (- 1074)"
| "fdiv (Finite s m e) (Finite t k f) =
     (if k = 0 then (if m = 0 then NaN else Infty (s \<noteq> t))
      else rnd (s \<noteq> t) (m * 2 ^ nat (e - f)) (k * 2 ^ nat (f - e)))"

text \<open>C's \<^verbatim>\<open>a == b\<close>: false when either side is NaN, true for the two zeros.\<close>

fun feq :: "double \<Rightarrow> double \<Rightarrow> bool" where
  "feq (Finite s m e) (Finite t k f) =
     (sval s m * 2 ^ nat (e - min e f) = sval t k * 2 ^ nat (f - min e f))"
| "feq (Infty s) (Infty t) = (s = t)"
| "feq x y = False"

text \<open>C's \<^verbatim>\<open>a < b\<close>: false when either side is NaN.\<close>

fun flt :: "double \<Rightarrow> double \<Rightarrow> bool" where
  "flt NaN y = False"
| "flt x NaN = False"
| "flt (Infty s) (Infty t) = (s \<and> \<not> t)"
| "flt (Infty s) (Finite t k f) = s"
| "flt (Finite s m e) (Infty t) = (\<not> t)"
| "flt (Finite s m e) (Finite t k f) =
     (sval s m * 2 ^ nat (e - min e f) < sval t k * 2 ^ nat (f - min e f))"

text \<open>
  \<^verbatim>\<open>round\<close> of \<^verbatim>\<open>math.h\<close>: the nearest whole number, a half going away from zero. The
  result is exact, and keeps the sign of its argument when it is zero.
\<close>

definition round_away :: "nat \<Rightarrow> nat \<Rightarrow> nat" where
  "round_away m d = (if d \<le> 2 * (m mod d) then m div d + 1 else m div d)"

fun fround :: "double \<Rightarrow> double" where
  "fround (Finite s m e) =
     (if 0 \<le> e then Finite s m e else rnd s (round_away m (2 ^ nat (- e))) 1)"
| "fround x = x"

text \<open>
  \<^verbatim>\<open>sqrt\<close> of \<^verbatim>\<open>math.h\<close>, correctly rounded as IEEE 754 requires. \<open>isqrt n r k\<close> adds to \<open>r\<close>
  the binary digits below position \<open>k\<close> of the integer square root of \<open>n\<close>. The significand
  is shifted to an even exponent and to at least 110 digits, so that the root has at least
  55; a root that is not exact lies strictly between two integers, where rounding gives
  what it gives on their midpoint.
\<close>

fun isqrt :: "nat \<Rightarrow> nat \<Rightarrow> nat \<Rightarrow> nat" where
  "isqrt n r 0 = r"
| "isqrt n r (Suc k) = isqrt n (if (r + 2 ^ k) * (r + 2 ^ k) \<le> n then r + 2 ^ k else r) k"

definition sqrt_at :: "nat \<Rightarrow> int \<Rightarrow> nat \<Rightarrow> double" where
  "sqrt_at N h r =
     (if r * r = N then rnd2 False r h else rnd2 False (2 * r + 1) (h - 1))"

fun fsqrt :: "double \<Rightarrow> double" where
  "fsqrt NaN = NaN"
| "fsqrt (Infty s) = (if s then NaN else Infty False)"
| "fsqrt (Finite s m e) =
     (if m = 0 then Finite s 0 (- 1074)
      else if s then NaN
      else sqrt_at (m * 2 ^ (110 + nat (e mod 2))) ((e - e mod 2) div 2 - 55)
             (isqrt (m * 2 ^ (110 + nat (e mod 2))) 0 (nbits (m * 2 ^ (110 + nat (e mod 2))))))"


section \<open>The environment of the C and C++ programs\<close>

text \<open>
  The programs read and write three things outside their own data: \<^verbatim>\<open>errno\<close>, the clock
  read by \<^verbatim>\<open>time(NULL)\<close> and \<^verbatim>\<open>system_clock::now()\<close>, and the \<^verbatim>\<open>double\<close> objects that
  result pointers point to. \<open>mem\<close> maps the address of such an object to its value; a
  pointer is an address, or \<open>None\<close> for \<^verbatim>\<open>NULL\<close>. A calculator is not one of these objects: a
  result pointer never points into a calculator.
\<close>

record world =
  errno :: int
  clock :: int
  mem :: "nat \<Rightarrow> double"

definition store :: "nat \<Rightarrow> double \<Rightarrow> world \<Rightarrow> world" where
  "store p v w = w\<lparr>mem := (mem w)(p := v)\<rparr>"

definition load :: "nat \<Rightarrow> world \<Rightarrow> double" where
  "load p w = mem w p"

text \<open>
  \<^verbatim>\<open>pow\<close> belongs to the C library, not to the repository, and its rounding is the
  library's own: it is a parameter \<open>pw\<close> of everything that calls it. \<open>pw x y\<close> is the value
  returned and the number stored in \<^verbatim>\<open>errno\<close>, if the call stores one. \<^verbatim>\<open>ERANGE\<close> and
  \<^verbatim>\<open>EDOM\<close> are the values of \<^verbatim>\<open>errno.h\<close> on Linux.
\<close>

type_synonym pow_fn = "double \<Rightarrow> double \<Rightarrow> double \<times> int option"

definition ERANGE :: int where
  "ERANGE = 34"

definition EDOM :: int where
  "EDOM = 33"

definition call_pow :: "pow_fn \<Rightarrow> double \<Rightarrow> double \<Rightarrow> world \<Rightarrow> double \<times> world" where
  "call_pow pw x y w =
     (fst (pw x y), case snd (pw x y) of None \<Rightarrow> w | Some k \<Rightarrow> w\<lparr>errno := k\<rparr>)"

section \<open>The C calculator\<close>

definition MAX_HISTORY :: int where
  "MAX_HISTORY = 100"

definition MAX_NAME_LENGTH :: nat where
  "MAX_NAME_LENGTH = 50"

datatype calc_error_t =
    CALC_SUCCESS
  | CALC_ERROR_DIVISION_BY_ZERO
  | CALC_ERROR_INVALID_INPUT
  | CALC_ERROR_MEMORY_ALLOCATION
  | CALC_ERROR_OVERFLOW
  | CALC_ERROR_NEGATIVE_ROOT

datatype operation_type_t =
  OP_ADD | OP_SUBTRACT | OP_MULTIPLY | OP_DIVIDE | OP_POWER | OP_SQUARE | OP_SQRT

text \<open>\<open>operands\<close> is the array \<^verbatim>\<open>double operands[2]\<close>, as the list of its two elements.\<close>

record history_entry_t =
  operation :: operation_type_t
  operands :: "double list"
  result :: double
  timestamp :: int

text \<open>
  \<open>history\<close> is the array \<^verbatim>\<open>history[MAX_HISTORY]\<close>, a function of the index. \<open>name\<close> is the
  string held by the buffer \<^verbatim>\<open>name[MAX_NAME_LENGTH]\<close>, without its terminator.
\<close>

record calculator_t =
  name :: string
  precision :: int
  history :: "int \<Rightarrow> history_entry_t"
  history_count :: int
  enable_history :: int

type_synonym binary_op_func =
  "double \<Rightarrow> double \<Rightarrow> nat option \<Rightarrow> world \<Rightarrow> calc_error_t \<times> world"

type_synonym unary_op_func =
  "double \<Rightarrow> nat option \<Rightarrow> world \<Rightarrow> calc_error_t \<times> world"

definition round_to_precision :: "pow_fn \<Rightarrow> double \<Rightarrow> int \<Rightarrow> world \<Rightarrow> double \<times> world" where
  "round_to_precision pw v p w =
     (case call_pow pw (double_of_int 10) (double_of_int p) w of
        (factor, w') \<Rightarrow> (fdiv (fround (fmul v factor)) factor, w'))"

text \<open>
  The store \<^verbatim>\<open>calc->history[calc->history_count]\<close> is inside the array when the count is
  not negative; the guard keeps it below \<open>MAX_HISTORY\<close>.
\<close>

definition add_to_history ::
  "calculator_t \<Rightarrow> operation_type_t \<Rightarrow> double \<Rightarrow> double \<Rightarrow> double \<Rightarrow> world \<Rightarrow> calculator_t" where
  "add_to_history calc opn operand1 operand2 res w =
     (if enable_history calc = 0 \<or> MAX_HISTORY \<le> history_count calc then calc
      else calc
        \<lparr>history := (history calc)
           (history_count calc :=
              \<lparr>operation = opn, operands = [operand1, operand2], result = res,
               timestamp = clock w\<rparr>),
         history_count := history_count calc + 1\<rparr>)"

text \<open>
  \<^verbatim>\<open>strncpy\<close> copies at most \<open>MAX_NAME_LENGTH - 1\<close> characters and the last byte of the buffer
  is set to the terminator. The history array is left as it was.
\<close>

definition calculator_init ::
  "calculator_t option \<Rightarrow> string option \<Rightarrow> int \<Rightarrow> calc_error_t \<times> calculator_t option" where
  "calculator_init calc nm p =
     (case calc of
        None \<Rightarrow> (CALC_ERROR_INVALID_INPUT, calc)
      | Some c \<Rightarrow>
          (case nm of
             None \<Rightarrow> (CALC_ERROR_INVALID_INPUT, calc)
           | Some n \<Rightarrow>
               (CALC_SUCCESS,
                Some (c\<lparr>name := take (MAX_NAME_LENGTH - 1) n, precision := p,
                        history_count := 0, enable_history := 1\<rparr>))))"

definition calc_add :: binary_op_func where
  "calc_add a b res w =
     (case res of
        None \<Rightarrow> (CALC_ERROR_INVALID_INPUT, w)
      | Some p \<Rightarrow> (CALC_SUCCESS, store p (fadd a b) w))"

definition calc_subtract :: binary_op_func where
  "calc_subtract a b res w =
     (case res of
        None \<Rightarrow> (CALC_ERROR_INVALID_INPUT, w)
      | Some p \<Rightarrow> (CALC_SUCCESS, store p (fsub a b) w))"

definition calc_multiply :: binary_op_func where
  "calc_multiply a b res w =
     (case res of
        None \<Rightarrow> (CALC_ERROR_INVALID_INPUT, w)
      | Some p \<Rightarrow> (CALC_SUCCESS, store p (fmul a b) w))"

definition calc_divide :: binary_op_func where
  "calc_divide a b res w =
     (case res of
        None \<Rightarrow> (CALC_ERROR_INVALID_INPUT, w)
      | Some p \<Rightarrow>
          if feq b d_zero then (CALC_ERROR_DIVISION_BY_ZERO, w)
          else (CALC_SUCCESS, store p (fdiv a b) w))"

text \<open>\<^verbatim>\<open>errno\<close> is read after the call of \<^verbatim>\<open>pow\<close> and is not cleared before it.\<close>

definition calc_power :: "pow_fn \<Rightarrow> binary_op_func" where
  "calc_power pw base exponent res w =
     (case res of
        None \<Rightarrow> (CALC_ERROR_INVALID_INPUT, w)
      | Some p \<Rightarrow>
          (case call_pow pw base exponent w of
             (v, w') \<Rightarrow>
               if errno w' = ERANGE then (CALC_ERROR_OVERFLOW, store p v w')
               else (CALC_SUCCESS, store p v w')))"

definition calc_square :: unary_op_func where
  "calc_square x res w =
     (case res of
        None \<Rightarrow> (CALC_ERROR_INVALID_INPUT, w)
      | Some p \<Rightarrow> (CALC_SUCCESS, store p (fmul x x) w))"

definition calc_sqrt :: unary_op_func where
  "calc_sqrt x res w =
     (case res of
        None \<Rightarrow> (CALC_ERROR_INVALID_INPUT, w)
      | Some p \<Rightarrow>
          if flt x d_zero then (CALC_ERROR_NEGATIVE_ROOT, w)
          else (CALC_SUCCESS, store p (fsqrt x) w))"

definition perform_binary_operation ::
  "pow_fn \<Rightarrow> calculator_t option \<Rightarrow> double \<Rightarrow> double \<Rightarrow> operation_type_t \<Rightarrow>
   binary_op_func option \<Rightarrow> nat option \<Rightarrow> world \<Rightarrow> calc_error_t \<times> calculator_t option \<times> world" where
  "perform_binary_operation pw calc a b opn op_func res w =
     (case calc of
        None \<Rightarrow> (CALC_ERROR_INVALID_INPUT, calc, w)
      | Some c \<Rightarrow>
          (case op_func of
             None \<Rightarrow> (CALC_ERROR_INVALID_INPUT, calc, w)
           | Some f \<Rightarrow>
               (case res of
                  None \<Rightarrow> (CALC_ERROR_INVALID_INPUT, calc, w)
                | Some p \<Rightarrow>
                    (case f a b (Some p) w of
                       (err, w1) \<Rightarrow>
                         if err = CALC_SUCCESS then
                           (case round_to_precision pw (load p w1) (precision c) w1 of
                              (r, w2) \<Rightarrow>
                                (err,
                                 Some (add_to_history c opn a b (load p (store p r w2))
                                         (store p r w2)),
                                 store p r w2))
                         else (err, calc, w1)))))"

definition perform_unary_operation ::
  "pow_fn \<Rightarrow> calculator_t option \<Rightarrow> double \<Rightarrow> operation_type_t \<Rightarrow>
   unary_op_func option \<Rightarrow> nat option \<Rightarrow> world \<Rightarrow> calc_error_t \<times> calculator_t option \<times> world" where
  "perform_unary_operation pw calc a opn op_func res w =
     (case calc of
        None \<Rightarrow> (CALC_ERROR_INVALID_INPUT, calc, w)
      | Some c \<Rightarrow>
          (case op_func of
             None \<Rightarrow> (CALC_ERROR_INVALID_INPUT, calc, w)
           | Some f \<Rightarrow>
               (case res of
                  None \<Rightarrow> (CALC_ERROR_INVALID_INPUT, calc, w)
                | Some p \<Rightarrow>
                    (case f a (Some p) w of
                       (err, w1) \<Rightarrow>
                         if err = CALC_SUCCESS then
                           (case round_to_precision pw (load p w1) (precision c) w1 of
                              (r, w2) \<Rightarrow>
                                (err,
                                 Some (add_to_history c opn a d_zero (load p (store p r w2))
                                         (store p r w2)),
                                 store p r w2))
                         else (err, calc, w1)))))"

text \<open>
  \<^verbatim>\<open>numbers\<close> points to an array read at the indices below \<^verbatim>\<open>count\<close>; the loop adds its
  elements from the first on.
\<close>

definition calc_average ::
  "(nat \<Rightarrow> double) option \<Rightarrow> int \<Rightarrow> nat option \<Rightarrow> world \<Rightarrow> calc_error_t \<times> world" where
  "calc_average numbers count res w =
     (case numbers of
        None \<Rightarrow> (CALC_ERROR_INVALID_INPUT, w)
      | Some xs \<Rightarrow>
          if count \<le> 0 then (CALC_ERROR_INVALID_INPUT, w)
          else
            (case res of
               None \<Rightarrow> (CALC_ERROR_INVALID_INPUT, w)
             | Some p \<Rightarrow>
                 (CALC_SUCCESS,
                  store p
                    (fdiv (fold (\<lambda>i s. fadd s (xs i)) [0..<nat count] d_zero)
                       (double_of_int count)) w)))"

definition clear_history :: "calculator_t option \<Rightarrow> calculator_t option" where
  "clear_history calc =
     (case calc of None \<Rightarrow> None | Some c \<Rightarrow> Some (c\<lparr>history_count := 0\<rparr>))"


subsection \<open>Integer utilities\<close>

text \<open>
  \<^verbatim>\<open>int\<close> is a word of 32 bits and \<^verbatim>\<open>long long\<close> one of 64, read as two's complement: the
  arithmetic wraps around, which is what the usual compilers make of a signed overflow
  (the C standard leaves it undefined). \<open>c_rem\<close> is \<^verbatim>\<open>%\<close>, whose sign follows the dividend;
  it has no value when the divisor is zero or the quotient overflows (the program traps).
\<close>

type_synonym int32 = "32 word"
type_synonym int64 = "64 word"

definition c_rem :: "'a::len word \<Rightarrow> 'a word \<Rightarrow> 'a word option" where
  "c_rem a b =
     (if b = 0 \<or> (sint a = - (2 ^ (LENGTH('a) - 1)) \<and> sint b = - 1) then None
      else Some (word_of_int (sint a smod sint b)))"

function factorial :: "int32 \<Rightarrow> int64" where
  "factorial n =
     (if n <s 0 then - 1
      else if n \<le>s 1 then 1
      else scast n * factorial (n - 1))"
  by pat_completeness auto

lemma sint_dec:
  fixes n :: "'a::len word"
  assumes "\<not> n <s 0" and "\<not> n \<le>s 1"
  shows "sint (n - 1) = sint n - 1"
proof (cases "LENGTH('a) = 1")
  case True
  have "sint n < 2 ^ (LENGTH('a) - 1)" by (rule sint_lt)
  with True assms(1) have "sint n = 0" by (simp add: word_sless_alt)
  then have "n = 0" by (simp add: signed_eq_0_iff)
  with assms(2) True show ?thesis by (simp add: word_sle_eq)
next
  case False
  then have one: "sint (1::'a word) = 1" by simp
  have lt: "sint n < 2 ^ (LENGTH('a) - 1)" by (rule sint_lt)
  from assms(2) one have gt: "1 < sint n" by (simp add: word_sle_eq)
  have "sint (n - 1) = signed_take_bit (LENGTH('a) - 1) (sint n - sint (1::'a word))"
    by (rule sint_word_diff)
  also have "\<dots> = signed_take_bit (LENGTH('a) - 1) (sint n - 1)" by (simp only: one)
  also have "\<dots> = sint n - 1"
    using gt lt by (intro signed_take_bit_int_eq_self) auto
  finally show ?thesis .
qed

termination factorial
  by (relation "measure (\<lambda>n. nat (sint n + 1))") (auto simp: sint_dec word_sless_alt)

declare factorial.simps [simp del]

text \<open>A result of \<open>None\<close> is a run that returns nothing: it traps, or it does not end.\<close>

partial_function (option) is_prime_loop :: "int32 \<Rightarrow> int32 \<Rightarrow> int option" where
  "is_prime_loop n i =
     (if i * i \<le>s n then
        (case c_rem n i of
           None \<Rightarrow> None
         | Some r1 \<Rightarrow>
             if r1 = 0 then Some 0
             else
               (case c_rem n (i + 2) of
                  None \<Rightarrow> None
                | Some r2 \<Rightarrow> if r2 = 0 then Some 0 else is_prime_loop n (i + 6)))
      else Some 1)"

definition is_prime :: "int32 \<Rightarrow> int option" where
  "is_prime n =
     (if n \<le>s 1 then Some 0
      else if n \<le>s 3 then Some 1
      else
        (case c_rem n 2 of
           None \<Rightarrow> None
         | Some r2 \<Rightarrow>
             if r2 = 0 then Some 0
             else
               (case c_rem n 3 of
                  None \<Rightarrow> None
                | Some r3 \<Rightarrow> if r3 = 0 then Some 0 else is_prime_loop n 5)))"


section \<open>The C++ calculator\<close>

text \<open>
  A member function takes the object and the environment and returns its outcome with
  both: \<open>Inl\<close> is the exception thrown, \<open>Inr\<close> the value returned. The class templates are
  records over the number type \<open>T\<close>; \<open>AdvancedCalculator\<close> is modelled at \<^verbatim>\<open>double\<close>. A data
  member \<^verbatim>\<open>x_\<close> is the field \<open>cpp_x\<close>.
\<close>

datatype OperationType =
  ADD | SUBTRACT | MULTIPLY | DIVIDE | POWER | SQUARE | SQRT | AVERAGE

datatype CalculatorException = CalculatorException string

record 'a HistoryEntry =
  cpp_operation :: OperationType
  cpp_operands :: "'a list"
  cpp_result :: 'a
  cpp_timestamp :: int

record 'a CalculatorBase =
  cpp_name :: string
  cpp_precision :: int
  cpp_history :: "'a HistoryEntry list"
  cpp_enable_history :: bool

definition AdvancedCalculator :: "string \<Rightarrow> int \<Rightarrow> double CalculatorBase" where
  "AdvancedCalculator nm p =
     \<lparr>cpp_name = nm, cpp_precision = p, cpp_history = [], cpp_enable_history = True\<rparr>"

definition addToHistory ::
  "'a CalculatorBase \<Rightarrow> OperationType \<Rightarrow> 'a list \<Rightarrow> 'a \<Rightarrow> world \<Rightarrow> 'a CalculatorBase" where
  "addToHistory c opn xs res w =
     (if cpp_enable_history c
      then c\<lparr>cpp_history := cpp_history c @
             [\<lparr>cpp_operation = opn, cpp_operands = xs, cpp_result = res, cpp_timestamp = clock w\<rparr>]\<rparr>
      else c)"

definition roundToPrecision ::
  "pow_fn \<Rightarrow> double CalculatorBase \<Rightarrow> double \<Rightarrow> world \<Rightarrow> double \<times> world" where
  "roundToPrecision pw c v w =
     (case call_pow pw (double_of_int 10) (double_of_int (cpp_precision c)) w of
        (factor, w') \<Rightarrow> (fdiv (fround (fmul v factor)) factor, w'))"

type_synonym outcome =
  "(CalculatorException + double) \<times> double CalculatorBase \<times> world"

definition AdvancedCalculator_add ::
  "pow_fn \<Rightarrow> double CalculatorBase \<Rightarrow> double \<Rightarrow> double \<Rightarrow> world \<Rightarrow> outcome" where
  "AdvancedCalculator_add pw c a b w =
     (case roundToPrecision pw c (fadd a b) w of
        (r, w') \<Rightarrow> (Inr r, addToHistory c ADD [a, b] r w', w'))"

definition AdvancedCalculator_divide ::
  "pow_fn \<Rightarrow> double CalculatorBase \<Rightarrow> double \<Rightarrow> double \<Rightarrow> world \<Rightarrow> outcome" where
  "AdvancedCalculator_divide pw c a b w =
     (if feq b d_zero then (Inl (CalculatorException ''Division by zero''), c, w)
      else
        (case roundToPrecision pw c (fdiv a b) w of
           (r, w') \<Rightarrow> (Inr r, addToHistory c DIVIDE [a, b] r w', w')))"

definition AdvancedCalculator_square ::
  "pow_fn \<Rightarrow> double CalculatorBase \<Rightarrow> double \<Rightarrow> world \<Rightarrow> outcome" where
  "AdvancedCalculator_square pw c x w =
     (case roundToPrecision pw c (fmul x x) w of
        (r, w') \<Rightarrow> (Inr r, addToHistory c SQUARE [x] r w', w'))"

definition AdvancedCalculator_sqrt ::
  "pow_fn \<Rightarrow> double CalculatorBase \<Rightarrow> double \<Rightarrow> world \<Rightarrow> outcome" where
  "AdvancedCalculator_sqrt pw c x w =
     (if flt x d_zero
      then (Inl (CalculatorException ''Cannot calculate square root of negative number''), c, w)
      else
        (case roundToPrecision pw c (fsqrt x) w of
           (r, w') \<Rightarrow> (Inr r, addToHistory c SQRT [x] r w', w')))"

text \<open>
  \<^verbatim>\<open>MathUtils::factorial<T>\<close> for a signed integer type \<open>T\<close> of any width, and
  \<^verbatim>\<open>MathUtils::isPrime\<close>.
\<close>

function MathUtils_factorial :: "'a::len word \<Rightarrow> CalculatorException + 'a word" where
  "MathUtils_factorial n =
     (if n <s 0
      then Inl (CalculatorException ''Factorial is only defined for non-negative numbers'')
      else if n \<le>s 1 then Inr 1
      else
        (case MathUtils_factorial (n - 1) of
           Inl ex \<Rightarrow> Inl ex
         | Inr r \<Rightarrow> Inr (n * r)))"
  by pat_completeness auto

termination MathUtils_factorial
  by (relation "measure (\<lambda>n. nat (sint n + 1))") (auto simp: sint_dec word_sless_alt)

declare MathUtils_factorial.simps [simp del]

partial_function (option) isPrime_loop :: "int32 \<Rightarrow> int32 \<Rightarrow> bool option" where
  "isPrime_loop n i =
     (if i * i \<le>s n then
        (case c_rem n i of
           None \<Rightarrow> None
         | Some r1 \<Rightarrow>
             if r1 = 0 then Some False
             else
               (case c_rem n (i + 2) of
                  None \<Rightarrow> None
                | Some r2 \<Rightarrow> if r2 = 0 then Some False else isPrime_loop n (i + 6)))
      else Some True)"

definition MathUtils_isPrime :: "int32 \<Rightarrow> bool option" where
  "MathUtils_isPrime n =
     (if n \<le>s 1 then Some False
      else if n \<le>s 3 then Some True
      else
        (case c_rem n 2 of
           None \<Rightarrow> None
         | Some r2 \<Rightarrow>
             if r2 = 0 then Some False
             else
               (case c_rem n 3 of
                  None \<Rightarrow> None
                | Some r3 \<Rightarrow> if r3 = 0 then Some False else isPrime_loop n 5)))"

section \<open>Sample inputs\<close>

text \<open>
  The closed examples below run the definitions on these. \<open>pow_whole\<close> is a \<^verbatim>\<open>pow\<close> for a
  finite base and a whole exponent, where the power is a rational number and is rounded
  once; these are the only arguments the examples pass, and a result that is a double
  (such as \<open>10\<^sup>4\<close>) is the one every C library returns. It stores \<^verbatim>\<open>ERANGE\<close> on overflow,
  on underflow to zero and at a pole. For other arguments it is no model of a C library:
  it answers NaN and \<^verbatim>\<open>EDOM\<close>. The general theorems do not use it: they hold for every
  \<open>pw\<close>.
\<close>

definition whole :: "double \<Rightarrow> int option" where
  "whole x =
     (case x of
        Finite s m e \<Rightarrow>
          if 0 \<le> e then Some (sval s (m * 2 ^ nat e))
          else if m mod 2 ^ nat (- e) = 0 then Some (sval s (m div 2 ^ nat (- e)))
          else None
      | _ \<Rightarrow> None)"

definition with_range :: "nat \<Rightarrow> double \<Rightarrow> double \<times> int option" where
  "with_range m r =
     (case r of
        Infty s \<Rightarrow> (r, Some ERANGE)
      | Finite s k e \<Rightarrow> (r, if k = 0 \<and> m \<noteq> 0 then Some ERANGE else None)
      | NaN \<Rightarrow> (r, None))"

definition pow_whole :: pow_fn where
  "pow_whole x y =
     (case whole y of
        None \<Rightarrow> (NaN, Some EDOM)
      | Some n \<Rightarrow>
          if n = 0 then (double_of_int 1, None)
          else
            (case x of
               Finite s m e \<Rightarrow>
                 if 0 < n then with_range m (rnd2 (s \<and> odd n) (m ^ nat n) (e * n))
                 else if m = 0 then (Infty (s \<and> odd n), Some ERANGE)
                 else
                   with_range m
                     (rnd (s \<and> odd n) (2 ^ nat (e * n)) (m ^ nat (- n) * 2 ^ nat (- (e * n))))
             | _ \<Rightarrow> (NaN, Some EDOM)))"

definition world0 :: world where
  "world0 = \<lparr>errno = 0, clock = 1700000000, mem = (\<lambda>p. d_zero)\<rparr>"

text \<open>The storage of a calculator before \<open>calculator_init\<close>, and the calculator of \<^verbatim>\<open>main\<close>.\<close>

definition blank_entry :: history_entry_t where
  "blank_entry = \<lparr>operation = OP_ADD, operands = [d_zero, d_zero], result = d_zero, timestamp = 0\<rparr>"

definition blank_calc :: calculator_t where
  "blank_calc =
     \<lparr>name = [], precision = 0, history = (\<lambda>i. blank_entry), history_count = 0,
      enable_history = 0\<rparr>"

definition demo_calc :: calculator_t where
  "demo_calc = blank_calc\<lparr>name := ''C Calculator'', precision := 4, enable_history := 1\<rparr>"

section \<open>Calculators a program can reach\<close>

text \<open>
  A C calculator is reached by \<open>calculator_init\<close> and then by the two wrappers and
  \<open>clear_history\<close>, with any arguments, and by assigning the field \<open>enable_history\<close> (the
  C sample has no function for that; the C++ one has \<^verbatim>\<open>setHistoryEnabled\<close>).
\<close>

inductive reachable :: "calculator_t \<Rightarrow> bool" where
  init: "calculator_init (Some c0) (Some nm) p = (CALC_SUCCESS, Some c) \<Longrightarrow> reachable c"
| binary:
    "reachable c \<Longrightarrow>
     perform_binary_operation pw (Some c) a b opn op_func res w = (err, Some c', w') \<Longrightarrow>
     reachable c'"
| unary:
    "reachable c \<Longrightarrow>
     perform_unary_operation pw (Some c) a opn op_func' res w = (err, Some c', w') \<Longrightarrow>
     reachable c'"
| clear: "reachable c \<Longrightarrow> clear_history (Some c) = Some c' \<Longrightarrow> reachable c'"
| toggle: "reachable c \<Longrightarrow> reachable (c\<lparr>enable_history := v\<rparr>)"

text \<open>\<open>operated c c'\<close>: a sequence of successful operations leads from \<open>c\<close> to \<open>c'\<close>.\<close>

inductive operated :: "calculator_t \<Rightarrow> calculator_t \<Rightarrow> bool" where
  none: "operated c c"
| binary:
    "operated c c1 \<Longrightarrow>
     perform_binary_operation pw (Some c1) a b opn op_func res w = (CALC_SUCCESS, Some c2, w') \<Longrightarrow>
     operated c c2"
| unary:
    "operated c c1 \<Longrightarrow>
     perform_unary_operation pw (Some c1) a opn op_func' res w = (CALC_SUCCESS, Some c2, w') \<Longrightarrow>
     operated c c2"

definition bounded :: "calculator_t \<Rightarrow> bool" where
  "bounded c = (0 \<le> history_count c \<and> history_count c \<le> MAX_HISTORY)"

text \<open>
  One more addition on a calculator, for 100 of them on the calculator of \<^verbatim>\<open>main\<close> and for
  101 on a C++ calculator.
\<close>

definition add_once :: "calculator_t \<Rightarrow> calculator_t" where
  "add_once c =
     the (fst (snd (perform_binary_operation pow_whole (Some c) (double_of_int 10)
                      (double_of_int 5) OP_ADD (Some calc_add) (Some 0) world0)))"

definition full_calc :: calculator_t where
  "full_calc = (add_once ^^ 100) demo_calc"

definition cpp_add_once :: "double CalculatorBase \<Rightarrow> double CalculatorBase" where
  "cpp_add_once k =
     fst (snd (AdvancedCalculator_add pow_whole k (double_of_int 10) (double_of_int 5) world0))"


section \<open>Running the definitions\<close>

text \<open>The equations that evaluate the arithmetic and the sample inputs on numerals.\<close>

lemmas fp_eval = rnd_def rnd_at_def adjust_def pack_def round_even_def nbits.simps rnd2_def
  of_scaled_def sval_def double_of_int_def round_away_def d_zero_def

lemmas env_eval = world0_def blank_calc_def blank_entry_def demo_calc_def store_def load_def
  call_pow_def pow_whole_def whole_def with_range_def ERANGE_def EDOM_def MAX_HISTORY_def
  MAX_NAME_LENGTH_def

section \<open>Failures of the engine (C1)\<close>

text \<open>
  C1. When the engine function that \<open>perform_binary_operation\<close> or
  \<open>perform_unary_operation\<close> calls returns an error code, the wrapper returns that code, the
  calculator (its history count and every stored entry) is the one it was given, and the
  environment, the result location included, is as the engine function left it: nothing
  is rounded and nothing is logged. This holds for every function passed as \<open>op_func\<close>,
  every operation kind and all operands.
\<close>

theorem failure_propagates:
  "(f a b (Some p) w = (err, w1) \<and> err \<noteq> CALC_SUCCESS \<longrightarrow>
      perform_binary_operation pw (Some c) a b opn (Some f) (Some p) w = (err, Some c, w1)) \<and>
   (g x (Some q) v = (err', v1) \<and> err' \<noteq> CALC_SUCCESS \<longrightarrow>
      perform_unary_operation pw (Some c') x opn' (Some g) (Some q) v = (err', Some c', v1))"
  by (simp add: perform_binary_operation_def perform_unary_operation_def)

text \<open>Dividing by zero and the root of \<open>-4\<close> on the calculator of \<^verbatim>\<open>main\<close>.\<close>

theorem failure_propagates_witness:
  "perform_binary_operation pow_whole (Some demo_calc) (double_of_int 10) d_zero OP_DIVIDE
     (Some calc_divide) (Some 0) world0
   = (CALC_ERROR_DIVISION_BY_ZERO, Some demo_calc, world0) \<and>
   perform_unary_operation pow_whole (Some demo_calc) (double_of_int (- 4)) OP_SQRT
     (Some calc_sqrt) (Some 0) world0
   = (CALC_ERROR_NEGATIVE_ROOT, Some demo_calc, world0)"
  using failure_propagates [where f = calc_divide and a = "double_of_int 10" and b = d_zero
      and p = 0 and w = world0 and err = CALC_ERROR_DIVISION_BY_ZERO and ?w1.0 = world0
      and pw = pow_whole and c = demo_calc and opn = OP_DIVIDE
      and g = calc_sqrt and x = "double_of_int (- 4)" and q = 0 and v = world0
      and err' = CALC_ERROR_NEGATIVE_ROOT and ?v1.0 = world0 and c' = demo_calc
      and opn' = OP_SQRT]
  by (simp add: calc_divide_def calc_sqrt_def fp_eval)

section \<open>Construction (C7)\<close>

text \<open>
  C7, as the code has it. \<open>calculator_init\<close> returns \<open>CALC_ERROR_INVALID_INPUT\<close> and leaves
  the storage alone when the calculator pointer or the name pointer is null. Every name
  that is present is accepted, the empty string too: the calculator gets its first 49
  characters, the precision, a history count of 0 and history switched on.
\<close>

theorem init_rejects_null:
  "calculator_init None nm p = (CALC_ERROR_INVALID_INPUT, None) \<and>
   calculator_init calc None p = (CALC_ERROR_INVALID_INPUT, calc) \<and>
   calculator_init (Some c) (Some n) p =
     (CALC_SUCCESS,
      Some (c\<lparr>name := take 49 n, precision := p, history_count := 0, enable_history := 1\<rparr>))"
  by (simp add: calculator_init_def MAX_NAME_LENGTH_def split: option.splits)

text \<open>
  C7 as the specification states it fails for the empty name: initialisation succeeds and
  produces a calculator.
\<close>

theorem init_accepts_empty_name:
  "calculator_init (Some blank_calc) (Some '''') 4 =
     (CALC_SUCCESS, Some (blank_calc\<lparr>precision := 4, enable_history := 1\<rparr>)) \<and>
   fst (calculator_init (Some blank_calc) (Some '''') 4) \<noteq> CALC_ERROR_INVALID_INPUT"
  by (simp add: calculator_init_def blank_calc_def)

section \<open>Null pointers (C10)\<close>

text \<open>
  C10. Every engine function with a result pointer returns \<open>CALC_ERROR_INVALID_INPUT\<close> when
  that pointer is null, and so do \<open>perform_binary_operation\<close> and \<open>perform_unary_operation\<close>
  when the calculator, the function or the result pointer is null. The environment and
  the calculator are returned as they were given: no location is written, \<^verbatim>\<open>errno\<close> is not
  touched, and the result does not depend on \<open>pw\<close> or on the function passed.
\<close>

theorem null_pointers_rejected:
  "calc_add a b None w = (CALC_ERROR_INVALID_INPUT, w) \<and>
   calc_subtract a b None w = (CALC_ERROR_INVALID_INPUT, w) \<and>
   calc_multiply a b None w = (CALC_ERROR_INVALID_INPUT, w) \<and>
   calc_divide a b None w = (CALC_ERROR_INVALID_INPUT, w) \<and>
   calc_power pw a b None w = (CALC_ERROR_INVALID_INPUT, w) \<and>
   calc_square a None w = (CALC_ERROR_INVALID_INPUT, w) \<and>
   calc_sqrt a None w = (CALC_ERROR_INVALID_INPUT, w) \<and>
   calc_average numbers count None w = (CALC_ERROR_INVALID_INPUT, w) \<and>
   perform_binary_operation pw None a b opn op_func res w = (CALC_ERROR_INVALID_INPUT, None, w) \<and>
   perform_binary_operation pw calc a b opn None res w = (CALC_ERROR_INVALID_INPUT, calc, w) \<and>
   perform_binary_operation pw calc a b opn op_func None w = (CALC_ERROR_INVALID_INPUT, calc, w) \<and>
   perform_unary_operation pw None a opn op_func' res w = (CALC_ERROR_INVALID_INPUT, None, w) \<and>
   perform_unary_operation pw calc a opn None res w = (CALC_ERROR_INVALID_INPUT, calc, w) \<and>
   perform_unary_operation pw calc a opn op_func' None w = (CALC_ERROR_INVALID_INPUT, calc, w)"
  by (simp add: calc_add_def calc_subtract_def calc_multiply_def calc_divide_def calc_power_def
      calc_square_def calc_sqrt_def calc_average_def perform_binary_operation_def
      perform_unary_operation_def split: option.splits)

text \<open>Steps of \<open>pow_whole\<close> and of the rounding, and the values the examples need.\<close>

lemma pow_whole_zero: "whole y = Some 0 \<Longrightarrow> pow_whole x y = (double_of_int 1, None)"
  by (simp add: pow_whole_def)

lemma pow_whole_pos:
  "whole y = Some n \<Longrightarrow> 0 < n \<Longrightarrow>
   pow_whole (Finite s m e) y = with_range m (rnd2 (s \<and> odd n) (m ^ nat n) (e * n))"
  by (simp add: pow_whole_def)

lemma round_to_precision_eval:
  "pw (double_of_int 10) (double_of_int p) = (f, None) \<Longrightarrow>
   round_to_precision pw v p w = (fdiv (fround (fmul v f)) f, w)"
  by (simp add: round_to_precision_def call_pow_def)
lemma double_2: "double_of_int 2 = Finite False 4503599627370496 (- 51)"
  by (simp add: fp_eval)
lemma double_10: "double_of_int 10 = Finite False 5629499534213120 (- 49)"
  by (simp add: fp_eval)
lemma whole_10: "whole (double_of_int 10) = Some 10"
  by (simp add: fp_eval whole_def)
lemma whole_4: "whole (double_of_int 4) = Some 4"
  by (simp add: fp_eval whole_def)
lemma whole_0: "whole (double_of_int 0) = Some 0"
  by (simp add: fp_eval whole_def)
lemma pow_10_4:
  "pow_whole (double_of_int 10) (double_of_int 4) = (Finite False 5497558138880000 (- 39), None)"
  unfolding double_10 using pow_whole_pos [OF whole_4, of False 5629499534213120 "- 49"]
  by (simp add: fp_eval with_range_def)
lemma pow_10_0:
  "pow_whole (double_of_int 10) (double_of_int 0) = (Finite False 4503599627370496 (- 52), None)"
  using pow_whole_zero [OF whole_0, of "double_of_int 10"] by (simp add: fp_eval)

section \<open>The result location on failure (C9)\<close>

lemma calc_power_overflow:
  "calc_power pw base ex res w = (CALC_ERROR_OVERFLOW, w') \<Longrightarrow>
   \<exists>p. res = Some p \<and> load p w' = fst (pw base ex) \<and> mem w' = (mem w)(p := fst (pw base ex))"
  by (cases res; cases "snd (pw base ex)")
     (auto simp: calc_power_def call_pow_def store_def load_def split: if_splits)

lemma calc_power_other:
  "calc_power pw base ex res w = (err, w') \<Longrightarrow> err \<noteq> CALC_SUCCESS \<Longrightarrow>
   err \<noteq> CALC_ERROR_OVERFLOW \<Longrightarrow> w' = w"
  by (cases res) (auto simp: calc_power_def split: if_splits prod.splits)

lemma calc_add_fail: "calc_add a b res w = (err, w') \<Longrightarrow> err \<noteq> CALC_SUCCESS \<Longrightarrow> w' = w"
  by (cases res) (auto simp: calc_add_def)

lemma calc_subtract_fail:
  "calc_subtract a b res w = (err, w') \<Longrightarrow> err \<noteq> CALC_SUCCESS \<Longrightarrow> w' = w"
  by (cases res) (auto simp: calc_subtract_def)

lemma calc_multiply_fail:
  "calc_multiply a b res w = (err, w') \<Longrightarrow> err \<noteq> CALC_SUCCESS \<Longrightarrow> w' = w"
  by (cases res) (auto simp: calc_multiply_def)

lemma calc_divide_fail:
  "calc_divide a b res w = (err, w') \<Longrightarrow> err \<noteq> CALC_SUCCESS \<Longrightarrow> w' = w"
  by (cases res) (auto simp: calc_divide_def split: if_splits)

lemma calc_square_fail:
  "calc_square a res w = (err, w') \<Longrightarrow> err \<noteq> CALC_SUCCESS \<Longrightarrow> w' = w"
  by (cases res) (auto simp: calc_square_def)

lemma calc_sqrt_fail:
  "calc_sqrt a res w = (err, w') \<Longrightarrow> err \<noteq> CALC_SUCCESS \<Longrightarrow> w' = w"
  by (cases res) (auto simp: calc_sqrt_def split: if_splits)

lemma calc_average_fail:
  "calc_average numbers count res w = (err, w') \<Longrightarrow> err \<noteq> CALC_SUCCESS \<Longrightarrow> w' = w"
  by (cases res; cases numbers) (auto simp: calc_average_def split: if_splits)


text \<open>
  C9. When \<open>calc_power\<close> returns \<open>CALC_ERROR_OVERFLOW\<close>, the result pointer is not null and
  the value that \<^verbatim>\<open>pow\<close> returned is in the result location, which is the only location
  written. Every other failure of an engine function (a null result pointer, a zero
  divisor, a negative argument of the root, an empty average) leaves the whole
  environment, the result location included, as it was.
\<close>

theorem power_overflow_writes_result:
  "(calc_power pw base ex res w = (CALC_ERROR_OVERFLOW, w') \<longrightarrow>
      (\<exists>p. res = Some p \<and> load p w' = fst (pw base ex) \<and>
           mem w' = (mem w)(p := fst (pw base ex)))) \<and>
   (calc_power pw base ex res w = (err, w') \<and> err \<noteq> CALC_SUCCESS \<and> err \<noteq> CALC_ERROR_OVERFLOW
      \<longrightarrow> w' = w) \<and>
   (calc_add a b res w = (err, w') \<and> err \<noteq> CALC_SUCCESS \<longrightarrow> w' = w) \<and>
   (calc_subtract a b res w = (err, w') \<and> err \<noteq> CALC_SUCCESS \<longrightarrow> w' = w) \<and>
   (calc_multiply a b res w = (err, w') \<and> err \<noteq> CALC_SUCCESS \<longrightarrow> w' = w) \<and>
   (calc_divide a b res w = (err, w') \<and> err \<noteq> CALC_SUCCESS \<longrightarrow> w' = w) \<and>
   (calc_square a res w = (err, w') \<and> err \<noteq> CALC_SUCCESS \<longrightarrow> w' = w) \<and>
   (calc_sqrt a res w = (err, w') \<and> err \<noteq> CALC_SUCCESS \<longrightarrow> w' = w) \<and>
   (calc_average numbers count res w = (err, w') \<and> err \<noteq> CALC_SUCCESS \<longrightarrow> w' = w)"
  using calc_power_overflow [of pw base ex res w w'] calc_power_other [of pw base ex res w err w']
    calc_add_fail [of a b res w err w'] calc_subtract_fail [of a b res w err w']
    calc_multiply_fail [of a b res w err w'] calc_divide_fail [of a b res w err w']
    calc_square_fail [of a res w err w'] calc_sqrt_fail [of a res w err w']
    calc_average_fail [of numbers count res w err w']
  by blast

text \<open>
  \<open>calc_power\<close> does not clear \<^verbatim>\<open>errno\<close>: called while it holds \<^verbatim>\<open>ERANGE\<close> from an earlier
  call, it reports an overflow for \<open>10\<^sup>4\<close> and has stored 10000.
\<close>

theorem power_overflow_writes_result_witness:
  "calc_power pow_whole (double_of_int 10) (double_of_int 4) (Some 0) (world0\<lparr>errno := ERANGE\<rparr>) =
     (CALC_ERROR_OVERFLOW,
      store 0 (Finite False 5497558138880000 (- 39)) (world0\<lparr>errno := ERANGE\<rparr>)) \<and>
   load 0 (store 0 (Finite False 5497558138880000 (- 39)) (world0\<lparr>errno := ERANGE\<rparr>)) =
     Finite False 5497558138880000 (- 39)"
proof -
  have run: "calc_power pow_whole (double_of_int 10) (double_of_int 4) (Some 0)
      (world0\<lparr>errno := ERANGE\<rparr>) =
     (CALC_ERROR_OVERFLOW,
      store 0 (Finite False 5497558138880000 (- 39)) (world0\<lparr>errno := ERANGE\<rparr>))"
    by (simp add: calc_power_def call_pow_def pow_10_4)
  from power_overflow_writes_result [where pw = pow_whole and base = "double_of_int 10"
      and ex = "double_of_int 4" and res = "Some 0" and w = "world0\<lparr>errno := ERANGE\<rparr>"
      and w' = "store 0 (Finite False 5497558138880000 (- 39)) (world0\<lparr>errno := ERANGE\<rparr>)"]
    run
  show ?thesis by (simp add: pow_10_4)
qed

section \<open>Factorial (C5)\<close>

lemma small_argument: "\<not> (n::int32) <s 0 \<Longrightarrow> n \<le>s 1 \<Longrightarrow> sint n = 0 \<or> sint n = 1"
  by (auto simp: word_sless_alt word_sle_eq)

lemma factorial_base: "\<not> (n::int32) <s 0 \<Longrightarrow> n \<le>s 1 \<Longrightarrow> factorial n = 1"
  by (subst factorial.simps) simp

lemma scast_of_nat: "1 < sint (n::int32) \<Longrightarrow> (scast n :: int64) = word_of_nat (nat (sint n))"
proof -
  assume gt: "1 < sint n"
  then have a: "int (nat (sint n)) = sint n" by simp
  have "(scast n :: int64) = word_of_int (sint n)" by (rule scast_eq)
  also have "\<dots> = word_of_int (int (nat (sint n)))" by (simp only: a)
  also have "\<dots> = word_of_nat (nat (sint n))" by (rule of_int_of_nat_eq)
  finally show ?thesis .
qed

lemma fact_unfold:
  assumes "1 < (i::int)"
  shows "fact (nat i) = nat i * (fact (nat (i - 1)) :: nat)"
proof -
  have "fact (nat i) = of_nat (nat i) * (fact (nat i - 1) :: nat)"
    using assms by (intro fact_reduce) simp
  moreover have "nat i - 1 = nat (i - 1)" using assms by arith
  ultimately show ?thesis by simp
qed

lemma factorial_step: "\<not> (n::int32) <s 0 \<Longrightarrow> \<not> n \<le>s 1 \<Longrightarrow> factorial n = scast n * factorial (n - 1)"
  by (subst factorial.simps) simp

lemma factorial_nonneg:
  "\<not> n <s 0 \<Longrightarrow> factorial n = word_of_nat (fact (nat (sint n)))"
proof (induction n rule: factorial.induct)
  case (1 n)
  show ?case
  proof (cases "n \<le>s 1")
    case True
    from small_argument [OF 1(2) True] have "fact (nat (sint n)) = (1::nat)" by auto
    with factorial_base [OF 1(2) True] show ?thesis by simp
  next
    case False
    have dec: "sint (n - 1) = sint n - 1" using 1(2) False by (rule sint_dec)
    from False have gt: "1 < sint n" by (simp add: word_sle_eq)
    then have nn: "\<not> (n - 1) <s 0" using dec by (simp add: word_sless_alt)
    have ih: "factorial (n - 1) = word_of_nat (fact (nat (sint n - 1)))"
      using 1(1) [OF 1(2) False nn] by (simp only: dec)
    show ?thesis
      by (simp only: factorial_step [OF 1(2) False] ih scast_of_nat [OF gt] fact_unfold [OF gt] of_nat_mult)
  qed
qed

lemma MathUtils_factorial_base:
  "\<not> (n::'a::len word) <s 0 \<Longrightarrow> n \<le>s 1 \<Longrightarrow> MathUtils_factorial n = Inr 1"
  by (subst MathUtils_factorial.simps) simp

lemma MathUtils_factorial_step:
  "\<not> (n::'a::len word) <s 0 \<Longrightarrow> \<not> n \<le>s 1 \<Longrightarrow>
   MathUtils_factorial n =
     (case MathUtils_factorial (n - 1) of Inl ex \<Rightarrow> Inl ex | Inr r \<Rightarrow> Inr (n * r))"
  by (subst MathUtils_factorial.simps) simp

lemma MathUtils_factorial_nonneg:
  fixes n :: "'a::len word"
  assumes len: "1 < LENGTH('a)"
  shows "\<not> n <s 0 \<Longrightarrow> MathUtils_factorial n = Inr (word_of_nat (fact (nat (sint n))))"
proof (induction n rule: MathUtils_factorial.induct)
  case (1 n)
  from len have one: "sint (1 :: 'a word) = 1" by simp
  show ?case
  proof (cases "n \<le>s 1")
    case True
    with 1(2) one have "sint n = 0 \<or> sint n = 1" by (auto simp: word_sless_alt word_sle_eq)
    then have "fact (nat (sint n)) = (1::nat)" by auto
    with MathUtils_factorial_base [OF 1(2) True] show ?thesis by simp
  next
    case False
    have dec: "sint (n - 1) = sint n - 1" using 1(2) False by (rule sint_dec)
    from False one have gt: "1 < sint n" by (simp add: word_sle_eq)
    then have nn: "\<not> (n - 1) <s 0" using dec by (simp add: word_sless_alt)
    have ih: "MathUtils_factorial (n - 1) = Inr (word_of_nat (fact (nat (sint n - 1))))"
      using 1(1) [OF 1(2) False nn] by (simp only: dec)
    have a: "int (nat (sint n)) = sint n" using gt by simp
    have "n = word_of_int (sint n)" by simp
    also have "\<dots> = word_of_int (int (nat (sint n)))" by (simp only: a)
    also have "\<dots> = word_of_nat (nat (sint n))" by (rule of_int_of_nat_eq)
    finally have nw: "n = word_of_nat (nat (sint n))" .
    have "MathUtils_factorial n = Inr (n * word_of_nat (fact (nat (sint n - 1))))"
      by (simp only: MathUtils_factorial_step [OF 1(2) False] ih sum.case)
    also have "n * word_of_nat (fact (nat (sint n - 1))) =
        word_of_nat (nat (sint n)) * word_of_nat (fact (nat (sint n - 1)))"
      using nw by simp
    finally show ?thesis by (simp only: fact_unfold [OF gt] of_nat_mult)
  qed
qed

lemma MathUtils_factorial_negative:
  "(n::'a::len word) <s 0 \<Longrightarrow>
   MathUtils_factorial n =
     Inl (CalculatorException ''Factorial is only defined for non-negative numbers'')"
  by (subst MathUtils_factorial.simps) simp

text \<open>
  C5, as the code has it. \<open>factorial n\<close> returns \<open>-1\<close> for a negative \<open>n\<close>, 1 for 0 and 1, and
  otherwise the product \<open>n * (n - 1) * \<dots> * 1\<close> as the 64-bit word it leaves: the factorial
  modulo \<open>2\<^sup>6\<^sup>4\<close>, read as a signed number. \<^verbatim>\<open>MathUtils::factorial\<close> throws for a negative \<open>n\<close>,
  returns 1 for 0 and 1, and otherwise returns the product as a word of its own type \<open>T\<close>:
  at \<^verbatim>\<open>int\<close>, where the program instantiates it, the factorial modulo \<open>2\<^sup>3\<^sup>2\<close>; at a 64-bit
  type the word the C function returns.
\<close>

theorem factorial_spec:
  "factorial n = (if n <s 0 then - 1 else word_of_nat (fact (nat (sint n)))) \<and>
   factorial 0 = 1 \<and> factorial 1 = 1 \<and>
   MathUtils_factorial (j :: int32) =
     (if j <s 0
      then Inl (CalculatorException ''Factorial is only defined for non-negative numbers'')
      else Inr (word_of_nat (fact (nat (sint j))))) \<and>
   MathUtils_factorial (0 :: int32) = Inr 1 \<and> MathUtils_factorial (1 :: int32) = Inr 1 \<and>
   MathUtils_factorial (k :: int64) =
     (if k <s 0
      then Inl (CalculatorException ''Factorial is only defined for non-negative numbers'')
      else Inr (word_of_nat (fact (nat (sint k))))) \<and>
   MathUtils_factorial (0 :: int64) = Inr 1 \<and> MathUtils_factorial (1 :: int64) = Inr 1"
proof -
  have neg: "n <s 0 \<Longrightarrow> factorial n = - 1" by (subst factorial.simps) simp
  have f0: "factorial 0 = 1" by (rule factorial_base) (simp_all add: word_sle_eq)
  have f1: "factorial 1 = 1" by (rule factorial_base) (simp_all add: word_sle_eq word_sless_alt)
  have j0: "MathUtils_factorial (0 :: int32) = Inr 1"
    by (rule MathUtils_factorial_base) (simp_all add: word_sle_eq)
  have j1: "MathUtils_factorial (1 :: int32) = Inr 1"
    by (rule MathUtils_factorial_base) (simp_all add: word_sle_eq word_sless_alt)
  have k0: "MathUtils_factorial (0 :: int64) = Inr 1"
    by (rule MathUtils_factorial_base) (simp_all add: word_sle_eq)
  have k1: "MathUtils_factorial (1 :: int64) = Inr 1"
    by (rule MathUtils_factorial_base) (simp_all add: word_sle_eq word_sless_alt)
  have j: "\<not> j <s 0 \<Longrightarrow> MathUtils_factorial j = Inr (word_of_nat (fact (nat (sint j))))"
    by (rule MathUtils_factorial_nonneg) simp
  have k: "\<not> k <s 0 \<Longrightarrow> MathUtils_factorial k = Inr (word_of_nat (fact (nat (sint k))))"
    by (rule MathUtils_factorial_nonneg) simp
  show ?thesis
    using neg factorial_nonneg [of n] MathUtils_factorial_negative [of j]
      MathUtils_factorial_negative [of k] j k f0 f1 j0 j1 k0 k1
    by simp
qed

text \<open>
  C5 as the specification states it fails for \<^verbatim>\<open>MathUtils::factorial\<close> at \<^verbatim>\<open>int\<close>, the type of
  its call in the program: the factorial of 13 comes out as 1932053504, which is not the
  product 6227020800 that the C function accumulates in 64 bits.
\<close>

theorem cpp_factorial_wraps_at_int:
  "MathUtils_factorial (13 :: int32) = Inr 1932053504 \<and>
   factorial 13 = 6227020800 \<and>
   sint (1932053504 :: int32) \<noteq> sint (6227020800 :: int64)"
proof -
  have f: "(fact 13 :: nat) = 6227020800" by (simp add: fact_numeral)
  have "MathUtils_factorial (13 :: int32) = Inr (word_of_nat (fact (nat (sint (13 :: int32)))))"
    by (rule MathUtils_factorial_nonneg) (simp_all add: word_sless_alt)
  then have a: "MathUtils_factorial (13 :: int32) = Inr 1932053504" by (simp add: f)
  have "factorial 13 = word_of_nat (fact (nat (sint (13 :: int32))))"
    by (rule factorial_nonneg) (simp add: word_sless_alt)
  then have b: "factorial 13 = 6227020800" by (simp add: f)
  from a b show ?thesis by simp
qed

section \<open>The entry of a unary operation (C8)\<close>

lemma square_8: "fmul (double_of_int 8) (double_of_int 8) = double_of_int 64"
  by (simp add: fp_eval)

lemma round_64:
  "fdiv (fround (fmul (double_of_int 64) (Finite False 5497558138880000 (- 39))))
     (Finite False 5497558138880000 (- 39)) = double_of_int 64"
  by (simp add: fp_eval)

lemma round_64_demo:
  "round_to_precision pow_whole (double_of_int 64) 4 w = (double_of_int 64, w)"
  using round_to_precision_eval [where pw = pow_whole and p = 4 and v = "double_of_int 64"
      and w = w, OF pow_10_4]
  by (simp only: round_64)

text \<open>
  C8, as the code has it. When the function called by \<open>perform_unary_operation\<close> succeeds,
  history is enabled and fewer than \<open>MAX_HISTORY\<close> entries are stored, the entry written at
  the index \<open>history_count\<close> holds the operation kind, the operand in the first slot of its
  two-slot operand array and 0.0 in the second, the rounded result and the time, and the
  count grows by one. (The C++ \<^verbatim>\<open>square\<close> and \<^verbatim>\<open>sqrt\<close> append an entry whose operand vector
  has the operand as its only element.)
\<close>

theorem unary_entry_recorded:
  "(g x (Some p) w = (CALC_SUCCESS, w1) \<and> enable_history c \<noteq> 0 \<and>
    history_count c < MAX_HISTORY \<and>
    round_to_precision pw (load p w1) (precision c) w1 = (r, w2) \<longrightarrow>
      perform_unary_operation pw (Some c) x opn (Some g) (Some p) w =
        (CALC_SUCCESS,
         Some (c\<lparr>history := (history c)
                   (history_count c :=
                      \<lparr>operation = opn, operands = [x, d_zero], result = r,
                       timestamp = clock w2\<rparr>),
                 history_count := history_count c + 1\<rparr>),
         store p r w2)) \<and>
   (cpp_enable_history k \<and> roundToPrecision pw k (fmul x x) v = (r', v') \<longrightarrow>
      AdvancedCalculator_square pw k x v =
        (Inr r',
         k\<lparr>cpp_history := cpp_history k @
             [\<lparr>cpp_operation = SQUARE, cpp_operands = [x], cpp_result = r',
               cpp_timestamp = clock v'\<rparr>]\<rparr>,
         v')) \<and>
   (cpp_enable_history k \<and> \<not> flt x d_zero \<and> roundToPrecision pw k (fsqrt x) v = (r', v') \<longrightarrow>
      AdvancedCalculator_sqrt pw k x v =
        (Inr r',
         k\<lparr>cpp_history := cpp_history k @
             [\<lparr>cpp_operation = SQRT, cpp_operands = [x], cpp_result = r',
               cpp_timestamp = clock v'\<rparr>]\<rparr>,
         v'))"
  by (simp add: perform_unary_operation_def add_to_history_def store_def load_def
      AdvancedCalculator_square_def AdvancedCalculator_sqrt_def addToHistory_def)

text \<open>Squaring 8 on the calculator of \<^verbatim>\<open>main\<close>.\<close>

theorem unary_entry_recorded_witness:
  "perform_unary_operation pow_whole (Some demo_calc) (double_of_int 8) OP_SQUARE
     (Some calc_square) (Some 0) world0 =
     (CALC_SUCCESS,
      Some (demo_calc\<lparr>history := (history demo_calc)
              (0 := \<lparr>operation = OP_SQUARE, operands = [double_of_int 8, d_zero],
                     result = double_of_int 64, timestamp = 1700000000\<rparr>),
            history_count := 1\<rparr>),
      store 0 (double_of_int 64) (store 0 (double_of_int 64) world0))"
proof -
  have run: "calc_square (double_of_int 8) (Some 0) world0 =
      (CALC_SUCCESS, store 0 (double_of_int 64) world0)"
    by (simp add: calc_square_def square_8)
  have rd: "round_to_precision pow_whole (load 0 (store 0 (double_of_int 64) world0))
      (precision demo_calc) (store 0 (double_of_int 64) world0) =
      (double_of_int 64, store 0 (double_of_int 64) world0)"
    by (simp add: load_def store_def demo_calc_def round_64_demo)
  have en: "enable_history demo_calc \<noteq> 0" "history_count demo_calc < MAX_HISTORY"
    "history_count demo_calc = 0"
    by (simp_all add: demo_calc_def blank_calc_def MAX_HISTORY_def)
  have ck: "clock (store 0 (double_of_int 64) world0) = 1700000000"
    by (simp add: store_def world0_def)
  from unary_entry_recorded [where g = calc_square and x = "double_of_int 8" and p = 0
      and w = world0 and ?w1.0 = "store 0 (double_of_int 64) world0" and c = demo_calc
      and pw = pow_whole and r = "double_of_int 64"
      and ?w2.0 = "store 0 (double_of_int 64) world0" and opn = OP_SQUARE]
    run rd en ck
  show ?thesis by simp
qed

text \<open>
  C8 as the specification states it fails in the C calculator: the operand sequence
  recorded for the square of 8 is \<open>[8, 0]\<close>, not the one-element sequence \<open>[8]\<close>.
\<close>

theorem unary_entry_has_two_operands:
  "operands
     (history
        (the (fst (snd (perform_unary_operation pow_whole (Some demo_calc) (double_of_int 8)
                          OP_SQUARE (Some calc_square) (Some 0) world0)))) 0) =
     [double_of_int 8, d_zero] \<and>
   operands
     (history
        (the (fst (snd (perform_unary_operation pow_whole (Some demo_calc) (double_of_int 8)
                          OP_SQUARE (Some calc_square) (Some 0) world0)))) 0) \<noteq>
     [double_of_int 8]"
  by (simp add: perform_unary_operation_def calc_square_def square_8 load_def store_def
      demo_calc_def blank_calc_def round_64_demo add_to_history_def MAX_HISTORY_def)

section \<open>Division (C3)\<close>

lemma feq_zero: "feq b d_zero = (\<exists>s e. b = Finite s 0 e)"
  by (cases b) (auto simp: d_zero_def sval_def)

lemma third: "fdiv (double_of_int 1) (double_of_int 3) = Finite False 6004799503160661 (- 54)"
  by (simp add: fp_eval)

lemma round_third:
  "fdiv (fround (fmul (Finite False 6004799503160661 (- 54))
                  (Finite False 5497558138880000 (- 39))))
     (Finite False 5497558138880000 (- 39)) = Finite False 6004199023210345 (- 54)"
  by (simp add: fp_eval)

lemma three_not_zero: "\<not> feq (double_of_int 3) d_zero"
  by (simp add: fp_eval)

lemma roundToPrecision_eval:
  "cpp_precision c = p \<Longrightarrow> pw (double_of_int 10) (double_of_int p) = (f, None) \<Longrightarrow>
   roundToPrecision pw c v w = (fdiv (fround (fmul v f)) f, w)"
  by (simp add: roundToPrecision_def call_pow_def)

text \<open>
  C3, as the code has it. With a result location, \<open>calc_divide a b\<close> fails with
  \<open>CALC_ERROR_DIVISION_BY_ZERO\<close>, storing nothing, exactly when \<^verbatim>\<open>b == 0.0\<close>, and otherwise
  succeeds and stores the quotient \<open>fdiv a b\<close>. The C++ \<^verbatim>\<open>divide\<close> throws exactly when
  \<^verbatim>\<open>b == 0\<close> and otherwise returns, and logs, that quotient rounded to the precision of
  the calculator. \<^verbatim>\<open>b == 0\<close> holds for the two zeros and for nothing else. All of this holds
  for every double, finite or not.
\<close>

theorem divide_behaviour:
  "calc_divide a b (Some p) w =
     (if feq b d_zero then (CALC_ERROR_DIVISION_BY_ZERO, w)
      else (CALC_SUCCESS, store p (fdiv a b) w)) \<and>
   AdvancedCalculator_divide pw c a b v =
     (if feq b d_zero then (Inl (CalculatorException ''Division by zero''), c, v)
      else
        (Inr (fst (roundToPrecision pw c (fdiv a b) v)),
         addToHistory c DIVIDE [a, b] (fst (roundToPrecision pw c (fdiv a b) v))
           (snd (roundToPrecision pw c (fdiv a b) v)),
         snd (roundToPrecision pw c (fdiv a b) v))) \<and>
   feq b d_zero = (\<exists>s e. b = Finite s 0 e)"
  by (simp add: calc_divide_def AdvancedCalculator_divide_def feq_zero split: prod.splits)

text \<open>
  C3 as the specification states it fails for the C++ \<^verbatim>\<open>divide\<close>: at the default precision
  4 it returns 0.3333 for \<open>1 / 3\<close>, which is not the quotient 0.333\<dots>.
\<close>

theorem cpp_divide_rounds:
  "fst (AdvancedCalculator_divide pow_whole (AdvancedCalculator ''Double Calculator'' 4)
          (double_of_int 1) (double_of_int 3) world0) =
     Inr (Finite False 6004199023210345 (- 54)) \<and>
   fdiv (double_of_int 1) (double_of_int 3) = Finite False 6004799503160661 (- 54) \<and>
   \<not> feq (Finite False 6004199023210345 (- 54)) (Finite False 6004799503160661 (- 54))"
proof -
  have rd: "roundToPrecision pow_whole (AdvancedCalculator ''Double Calculator'' 4)
      (Finite False 6004799503160661 (- 54)) world0 =
      (Finite False 6004199023210345 (- 54), world0)"
    using roundToPrecision_eval [where c = "AdvancedCalculator ''Double Calculator'' 4"
        and p = 4 and pw = pow_whole and w = world0
        and v = "Finite False 6004799503160661 (- 54)", OF _ pow_10_4]
    by (simp only: round_third AdvancedCalculator_def CalculatorBase.simps)
  have "fst (AdvancedCalculator_divide pow_whole (AdvancedCalculator ''Double Calculator'' 4)
          (double_of_int 1) (double_of_int 3) world0) =
     Inr (Finite False 6004199023210345 (- 54))"
    by (simp add: AdvancedCalculator_divide_def three_not_zero third rd)
  moreover have
    "\<not> feq (Finite False 6004199023210345 (- 54)) (Finite False 6004799503160661 (- 54))"
    by (simp add: sval_def)
  ultimately show ?thesis using third by simp
qed

section \<open>The bound of the history (C2)\<close>

lemma add_to_history_bounded: "bounded c \<Longrightarrow> bounded (add_to_history c opn a b r w)"
  by (simp add: bounded_def add_to_history_def MAX_HISTORY_def)

lemma add_to_history_full:
  "MAX_HISTORY \<le> history_count c \<Longrightarrow> add_to_history c opn a b r w = c"
  by (simp add: add_to_history_def)

lemma perform_binary_cases:
  assumes "perform_binary_operation pw (Some c) a b opn op_func res w = (err, Some c', w')"
  shows "c' = c \<or> (\<exists>r w2. c' = add_to_history c opn a b r w2)"
  using assms
  by (cases op_func; cases res)
     (auto simp: perform_binary_operation_def split: prod.splits if_splits)

lemma perform_unary_cases:
  assumes "perform_unary_operation pw (Some c) a opn op_func res w = (err, Some c', w')"
  shows "c' = c \<or> (\<exists>r w2. c' = add_to_history c opn a d_zero r w2)"
  using assms
  by (cases op_func; cases res)
     (auto simp: perform_unary_operation_def split: prod.splits if_splits)

lemma reachable_bounded: "reachable c \<Longrightarrow> bounded c"
proof (induction rule: reachable.induct)
  case (init c0 nm p c)
  then show ?case by (auto simp: calculator_init_def bounded_def MAX_HISTORY_def)
next
  case (binary c pw a b opn op_func res w err c' w')
  from perform_binary_cases [OF binary.hyps(2)] binary.IH show ?case
    by (auto simp: add_to_history_bounded)
next
  case (unary c pw a opn op_func' res w err c' w')
  from perform_unary_cases [OF unary.hyps(2)] unary.IH show ?case
    by (auto simp: add_to_history_bounded)
next
  case (clear c c')
  then show ?case by (auto simp: clear_history_def bounded_def MAX_HISTORY_def)
next
  case (toggle c v)
  then show ?case by (simp add: bounded_def)
qed

lemma operated_full: "operated c c' \<Longrightarrow> history_count c = MAX_HISTORY \<Longrightarrow> c' = c"
proof (induction rule: operated.induct)
  case (none c)
  show ?case by simp
next
  case (binary c c1 pw a b opn op_func res w c2 w')
  then have "c1 = c" by simp
  with perform_binary_cases [OF binary.hyps(2)] binary.prems show ?case
    by (auto simp: add_to_history_full)
next
  case (unary c c1 pw a opn op_func' res w c2 w')
  then have "c1 = c" by simp
  with perform_unary_cases [OF unary.hyps(2)] unary.prems show ?case
    by (auto simp: add_to_history_full)
qed

lemma addToHistory_length:
  "cpp_enable_history k \<Longrightarrow>
   length (cpp_history (addToHistory k opn xs y v)) = length (cpp_history k) + 1"
  by (simp add: addToHistory_def)

text \<open>
  C2, as the code has it. In the C calculator the history count of every reachable state
  lies between 0 and \<open>MAX_HISTORY = 100\<close>; at 100, \<open>add_to_history\<close> returns the calculator it
  was given (no entry and no field changes, and no error is signalled: it has no result),
  and every sequence of successful operations leaves the calculator as it is. The C++
  calculator has no capacity: with history enabled, every \<^verbatim>\<open>addToHistory\<close> makes the vector
  one longer.
\<close>

theorem history_bounded:
  "(reachable c \<longrightarrow> 0 \<le> history_count c \<and> history_count c \<le> MAX_HISTORY) \<and>
   (history_count c = MAX_HISTORY \<longrightarrow> add_to_history c opn a b r w = c) \<and>
   (history_count c = MAX_HISTORY \<and> operated c c' \<longrightarrow> c' = c) \<and>
   (cpp_enable_history k \<longrightarrow>
      length (cpp_history (addToHistory k opn' xs y v)) = length (cpp_history k) + 1)"
  using reachable_bounded [of c] add_to_history_full [of c opn a b r w]
    operated_full [of c c'] addToHistory_length [of k opn' xs y v]
  by (simp add: bounded_def)

lemma add_once_run:
  "\<exists>r w2. perform_binary_operation pow_whole (Some c) (double_of_int 10) (double_of_int 5)
       OP_ADD (Some calc_add) (Some 0) world0 =
     (CALC_SUCCESS, Some (add_to_history c OP_ADD (double_of_int 10) (double_of_int 5) r w2), w2)"
proof -
  obtain r w1 where
    "round_to_precision pow_whole
       (load 0 (store 0 (fadd (double_of_int 10) (double_of_int 5)) world0)) (precision c)
       (store 0 (fadd (double_of_int 10) (double_of_int 5)) world0) = (r, w1)"
    by (cases "round_to_precision pow_whole
       (load 0 (store 0 (fadd (double_of_int 10) (double_of_int 5)) world0)) (precision c)
       (store 0 (fadd (double_of_int 10) (double_of_int 5)) world0)") blast
  then have "perform_binary_operation pow_whole (Some c) (double_of_int 10) (double_of_int 5)
       OP_ADD (Some calc_add) (Some 0) world0 =
     (CALC_SUCCESS,
      Some (add_to_history c OP_ADD (double_of_int 10) (double_of_int 5)
              (load 0 (store 0 r w1)) (store 0 r w1)),
      store 0 r w1)"
    by (simp add: perform_binary_operation_def calc_add_def)
  then show ?thesis by blast
qed

lemma add_once_eq:
  "\<exists>r w2. add_once c = add_to_history c OP_ADD (double_of_int 10) (double_of_int 5) r w2"
proof -
  from add_once_run [of c] obtain r w2 where
    "perform_binary_operation pow_whole (Some c) (double_of_int 10) (double_of_int 5)
       OP_ADD (Some calc_add) (Some 0) world0 =
     (CALC_SUCCESS, Some (add_to_history c OP_ADD (double_of_int 10) (double_of_int 5) r w2), w2)"
    by blast
  then have "add_once c = add_to_history c OP_ADD (double_of_int 10) (double_of_int 5) r w2"
    by (simp add: add_once_def)
  then show ?thesis by blast
qed

lemma add_once_reachable: "reachable c \<Longrightarrow> reachable (add_once c)"
proof -
  assume r: "reachable c"
  from add_once_run [of c] obtain r' w2 where
    run: "perform_binary_operation pow_whole (Some c) (double_of_int 10) (double_of_int 5)
       OP_ADD (Some calc_add) (Some 0) world0 =
     (CALC_SUCCESS, Some (add_to_history c OP_ADD (double_of_int 10) (double_of_int 5) r' w2), w2)"
    by blast
  then have "add_once c = add_to_history c OP_ADD (double_of_int 10) (double_of_int 5) r' w2"
    by (simp add: add_once_def)
  with reachable.binary [OF r run] show ?thesis by simp
qed

lemma add_once_count:
  "enable_history c \<noteq> 0 \<Longrightarrow> history_count c < MAX_HISTORY \<Longrightarrow>
   history_count (add_once c) = history_count c + 1 \<and> enable_history (add_once c) \<noteq> 0"
  using add_once_eq [of c] by (auto simp: add_to_history_def)

lemma funpow_reachable: "reachable c \<Longrightarrow> reachable ((add_once ^^ n) c)"
  by (induction n) (simp_all add: add_once_reachable)

lemma funpow_count:
  "enable_history c \<noteq> 0 \<Longrightarrow> history_count c = 0 \<Longrightarrow> int n \<le> MAX_HISTORY \<Longrightarrow>
   history_count ((add_once ^^ n) c) = int n \<and> enable_history ((add_once ^^ n) c) \<noteq> 0"
proof (induction n)
  case 0
  then show ?case by simp
next
  case (Suc n)
  then have ih: "history_count ((add_once ^^ n) c) = int n"
    "enable_history ((add_once ^^ n) c) \<noteq> 0" by simp_all
  from Suc.prems(3) ih(1) have "history_count ((add_once ^^ n) c) < MAX_HISTORY" by simp
  from add_once_count [OF ih(2) this] ih(1) show ?case by simp
qed

lemma demo_calc_reachable: "reachable demo_calc"
proof -
  have "calculator_init (Some blank_calc) (Some ''C Calculator'') 4 = (CALC_SUCCESS, Some demo_calc)"
    by (simp add: calculator_init_def demo_calc_def blank_calc_def MAX_NAME_LENGTH_def)
  then show ?thesis by (rule reachable.init)
qed

lemma full_calc_reachable: "reachable full_calc"
  unfolding full_calc_def by (rule funpow_reachable [OF demo_calc_reachable])

lemma full_calc_count: "history_count full_calc = MAX_HISTORY"
  unfolding full_calc_def
  using funpow_count [of demo_calc 100]
  by (simp add: demo_calc_def blank_calc_def MAX_HISTORY_def)

text \<open>The calculator of \<^verbatim>\<open>main\<close> after 100 additions is reachable and full.\<close>

theorem history_bounded_witness:
  "reachable full_calc \<and> history_count full_calc = MAX_HISTORY \<and>
   0 \<le> history_count full_calc \<and> history_count full_calc \<le> MAX_HISTORY \<and>
   add_to_history full_calc OP_ADD (double_of_int 10) (double_of_int 5) (double_of_int 15) world0
     = full_calc \<and>
   operated full_calc full_calc \<and>
   length (cpp_history (addToHistory (AdvancedCalculator ''Double Calculator'' 4) ADD
             [double_of_int 10, double_of_int 5] (double_of_int 15) world0)) = 1"
  using history_bounded [where c = full_calc and opn = OP_ADD and a = "double_of_int 10"
      and b = "double_of_int 5" and r = "double_of_int 15" and w = world0 and c' = full_calc
      and k = "AdvancedCalculator ''Double Calculator'' 4" and opn' = ADD
      and xs = "[double_of_int 10, double_of_int 5]" and y = "double_of_int 15" and v = world0]
    full_calc_reachable full_calc_count operated.none [of full_calc]
  by (simp add: AdvancedCalculator_def)

lemma cpp_add_once_length:
  "cpp_enable_history k \<Longrightarrow>
   length (cpp_history (cpp_add_once k)) = length (cpp_history k) + 1 \<and>
   cpp_enable_history (cpp_add_once k)"
  by (simp add: cpp_add_once_def AdvancedCalculator_add_def addToHistory_def split: prod.splits)

lemma cpp_funpow_length:
  "cpp_enable_history k \<Longrightarrow>
   length (cpp_history ((cpp_add_once ^^ n) k)) = length (cpp_history k) + n \<and>
   cpp_enable_history ((cpp_add_once ^^ n) k)"
  by (induction n) (simp_all add: cpp_add_once_length)

text \<open>
  C2 as the specification states it fails for the C++ calculator: after 101 additions
  its history has 101 entries.
\<close>

theorem cpp_history_unbounded:
  "length (cpp_history ((cpp_add_once ^^ 101) (AdvancedCalculator ''Double Calculator'' 4))) = 101 \<and>
   \<not> int (length (cpp_history ((cpp_add_once ^^ 101)
                (AdvancedCalculator ''Double Calculator'' 4)))) \<le> MAX_HISTORY"
  using cpp_funpow_length [of "AdvancedCalculator ''Double Calculator'' 4" 101]
  by (simp add: AdvancedCalculator_def MAX_HISTORY_def)

section \<open>The primality test (C6)\<close>

text \<open>One turn of each loop.\<close>

lemma loop_hit1:
  "i * i \<le>s n \<Longrightarrow> c_rem n i = Some 0 \<Longrightarrow> is_prime_loop n i = Some 0"
  by (subst is_prime_loop.simps) simp

lemma loop_hit2:
  "i * i \<le>s n \<Longrightarrow> c_rem n i = Some r \<Longrightarrow> c_rem n (i + 2) = Some 0 \<Longrightarrow>
   is_prime_loop n i = Some 0"
  by (subst is_prime_loop.simps) simp

lemma loop_step:
  "i * i \<le>s n \<Longrightarrow> c_rem n i = Some r \<Longrightarrow> r \<noteq> 0 \<Longrightarrow> c_rem n (i + 2) = Some r' \<Longrightarrow>
   r' \<noteq> 0 \<Longrightarrow> is_prime_loop n i = is_prime_loop n (i + 6)"
  by (subst is_prime_loop.simps) simp

lemma loop_exit: "\<not> i * i \<le>s n \<Longrightarrow> is_prime_loop n i = Some 1"
  by (subst is_prime_loop.simps) simp

lemma cpp_loop_hit1:
  "i * i \<le>s n \<Longrightarrow> c_rem n i = Some 0 \<Longrightarrow> isPrime_loop n i = Some False"
  by (subst isPrime_loop.simps) simp

lemma cpp_loop_hit2:
  "i * i \<le>s n \<Longrightarrow> c_rem n i = Some r \<Longrightarrow> c_rem n (i + 2) = Some 0 \<Longrightarrow>
   isPrime_loop n i = Some False"
  by (subst isPrime_loop.simps) simp

lemma cpp_loop_step:
  "i * i \<le>s n \<Longrightarrow> c_rem n i = Some r \<Longrightarrow> r \<noteq> 0 \<Longrightarrow> c_rem n (i + 2) = Some r' \<Longrightarrow>
   r' \<noteq> 0 \<Longrightarrow> isPrime_loop n i = isPrime_loop n (i + 6)"
  by (subst isPrime_loop.simps) simp

lemma cpp_loop_exit: "\<not> i * i \<le>s n \<Longrightarrow> isPrime_loop n i = Some True"
  by (subst isPrime_loop.simps) simp

lemma sint_add_int32:
  fixes i j :: int32
  assumes "0 \<le> sint i" and "0 \<le> sint j" and "sint i + sint j < 2147483648"
  shows "sint (i + j) = sint i + sint j"
proof -
  have "sint (i + j) = signed_take_bit 31 (sint i + sint j)"
    using sint_word_add [of i j] by simp
  also have "\<dots> = sint i + sint j"
    using assms by (intro signed_take_bit_int_eq_self) auto
  finally show ?thesis .
qed

lemma c_rem_value:
  fixes n i :: int32
  assumes "0 < sint i"
  shows "c_rem n i = Some (word_of_int (sint n smod sint i))"
proof -
  from assms have "i \<noteq> 0" by auto
  moreover from assms have "sint i \<noteq> - 1" by simp
  ultimately show ?thesis by (simp add: c_rem_def)
qed

lemma next_le:
  "(x::int) mod 6 = 5 \<Longrightarrow> x \<le> 2147483645 \<Longrightarrow> x \<noteq> 2147483645 \<Longrightarrow> x + 6 \<le> 2147483645"
  by presburger

text \<open>
  For \<open>n = 2147483647\<close>, the largest \<^verbatim>\<open>int\<close>, the test \<^verbatim>\<open>i * i <= n\<close> is true whatever the
  product wraps to, so the loop leaves only by finding a divisor; \<open>i\<close> runs through the
  numbers \<open>5, 11, 17, \<dots>\<close> and at \<open>i = n - 2\<close> the divisor \<open>i + 2 = n\<close> is found, if none
  was before.
\<close>

lemma max_loop:
  fixes i :: int32
  assumes "5 \<le> sint i" and "sint i \<le> 2147483645" and "sint i mod 6 = 5"
  shows "is_prime_loop 2147483647 i = Some 0"
  using assms
proof (induction "nat (2147483645 - sint i)" arbitrary: i rule: less_induct)
  case less
  have n: "sint (2147483647 :: int32) = 2147483647" by simp
  have cond: "i * i \<le>s 2147483647"
    using sint_lt [of "i * i"] by (simp add: word_sle_eq)
  have pos: "0 < sint i" using less.prems(1) by simp
  have i2: "sint (i + 2) = sint i + 2"
    using sint_add_int32 [of i 2] less.prems by simp
  have r1: "c_rem 2147483647 i = Some (word_of_int (2147483647 smod sint i))"
    using c_rem_value [OF pos, of 2147483647] by simp
  have r2: "c_rem 2147483647 (i + 2) = Some (word_of_int (2147483647 smod (sint i + 2)))"
    using c_rem_value [of "i + 2" 2147483647] pos i2 by simp
  show ?case
  proof (cases "(word_of_int (2147483647 smod sint i) :: int32) = 0")
    case True
    with r1 have "c_rem 2147483647 i = Some 0" by simp
    then show ?thesis by (rule loop_hit1 [OF cond])
  next
    case nz1: False
    show ?thesis
    proof (cases "(word_of_int (2147483647 smod (sint i + 2)) :: int32) = 0")
      case True
      with r2 have "c_rem 2147483647 (i + 2) = Some 0" by simp
      then show ?thesis by (rule loop_hit2 [OF cond r1])
    next
      case nz2: False
      have ne: "sint i \<noteq> 2147483645"
      proof
        assume "sint i = 2147483645"
        then have "(2147483647::int) smod (sint i + 2) = 0"
          by (simp add: signed_modulo_int_def)
        with nz2 show False by simp
      qed
      have le: "sint i + 6 \<le> 2147483645"
        using less.prems(3) less.prems(2) ne by (rule next_le)
      have i6: "sint (i + 6) = sint i + 6"
        using sint_add_int32 [of i 6] less.prems le by simp
      have "is_prime_loop 2147483647 (i + 6) = Some 0"
      proof (rule less.hyps)
        show "nat (2147483645 - sint (i + 6)) < nat (2147483645 - sint i)"
          using i6 le by simp
        show "5 \<le> sint (i + 6)" using i6 less.prems(1) by simp
        show "sint (i + 6) \<le> 2147483645" using i6 le by simp
        show "sint (i + 6) mod 6 = 5" using i6 less.prems(3) by simp
      qed
      with loop_step [OF cond r1 nz1 r2 nz2] show ?thesis by simp
    qed
  qed
qed

lemma cpp_max_loop:
  fixes i :: int32
  assumes "5 \<le> sint i" and "sint i \<le> 2147483645" and "sint i mod 6 = 5"
  shows "isPrime_loop 2147483647 i = Some False"
  using assms
proof (induction "nat (2147483645 - sint i)" arbitrary: i rule: less_induct)
  case less
  have n: "sint (2147483647 :: int32) = 2147483647" by simp
  have cond: "i * i \<le>s 2147483647"
    using sint_lt [of "i * i"] by (simp add: word_sle_eq)
  have pos: "0 < sint i" using less.prems(1) by simp
  have i2: "sint (i + 2) = sint i + 2"
    using sint_add_int32 [of i 2] less.prems by simp
  have r1: "c_rem 2147483647 i = Some (word_of_int (2147483647 smod sint i))"
    using c_rem_value [OF pos, of 2147483647] by simp
  have r2: "c_rem 2147483647 (i + 2) = Some (word_of_int (2147483647 smod (sint i + 2)))"
    using c_rem_value [of "i + 2" 2147483647] pos i2 by simp
  show ?case
  proof (cases "(word_of_int (2147483647 smod sint i) :: int32) = 0")
    case True
    with r1 have "c_rem 2147483647 i = Some 0" by simp
    then show ?thesis by (rule cpp_loop_hit1 [OF cond])
  next
    case nz1: False
    show ?thesis
    proof (cases "(word_of_int (2147483647 smod (sint i + 2)) :: int32) = 0")
      case True
      with r2 have "c_rem 2147483647 (i + 2) = Some 0" by simp
      then show ?thesis by (rule cpp_loop_hit2 [OF cond r1])
    next
      case nz2: False
      have ne: "sint i \<noteq> 2147483645"
      proof
        assume "sint i = 2147483645"
        then have "(2147483647::int) smod (sint i + 2) = 0"
          by (simp add: signed_modulo_int_def)
        with nz2 show False by simp
      qed
      have le: "sint i + 6 \<le> 2147483645"
        using less.prems(3) less.prems(2) ne by (rule next_le)
      have i6: "sint (i + 6) = sint i + 6"
        using sint_add_int32 [of i 6] less.prems le by simp
      have "isPrime_loop 2147483647 (i + 6) = Some False"
      proof (rule less.hyps)
        show "nat (2147483645 - sint (i + 6)) < nat (2147483645 - sint i)"
          using i6 le by simp
        show "5 \<le> sint (i + 6)" using i6 less.prems(1) by simp
        show "sint (i + 6) \<le> 2147483645" using i6 le by simp
        show "sint (i + 6) mod 6 = 5" using i6 less.prems(3) by simp
      qed
      with cpp_loop_step [OF cond r1 nz1 r2 nz2] show ?thesis by simp
    qed
  qed
qed

text \<open>
  C6 at the input 2147483647, which is prime (\<open>2\<^sup>3\<^sup>1 - 1\<close>): both functions return and
  report that it is not. The product \<^verbatim>\<open>i * i\<close> first exceeds the range of \<^verbatim>\<open>int\<close> at
  \<open>i = 46343\<close>.
\<close>

theorem is_prime_int_max:
  "is_prime 2147483647 = Some 0 \<and> MathUtils_isPrime 2147483647 = Some False \<and>
   (46343 :: int) * 46343 > 2147483647 \<and> sint ((46343 :: int32) * 46343) < 0"
proof -
  have r2: "c_rem (2147483647 :: int32) 2 = Some 1"
    by (simp add: c_rem_def signed_modulo_int_def)
  have r3: "c_rem (2147483647 :: int32) 3 = Some 1"
    by (simp add: c_rem_def signed_modulo_int_def)
  have "is_prime_loop 2147483647 5 = Some 0" by (rule max_loop) simp_all
  with r2 r3 have a: "is_prime 2147483647 = Some 0" by (simp add: is_prime_def word_sle_eq)
  have "isPrime_loop 2147483647 5 = Some False" by (rule cpp_max_loop) simp_all
  with r2 r3 have b: "MathUtils_isPrime 2147483647 = Some False"
    by (simp add: MathUtils_isPrime_def word_sle_eq)
  from a b show ?thesis by simp
qed

section \<open>Rounding twice (C4)\<close>



















































end
